theory Spec2Isabelle
  imports Complex_Main "HOL-Library.Word"
begin

section \<open>Screenshot baseline comparison of the submit-post script\<close>

text \<open>
  The repository holds four browser-automation scripts. Each declares the same
  \<^verbatim>\<open>compareScreenshots\<close>; only the post-submission script (the second one)
  calls it, from two blocks of \<^verbatim>\<open>main\<close> that either compare a fresh
  screenshot against \<^verbatim>\<open>screenshots/baseline_<key>.png\<close> or record the
  screenshot as that baseline. This theory embeds that function, the two blocks and the
  file operations they perform.

  Two libraries are imported by the script and are not part of the repository:
  \<^verbatim>\<open>pngjs\<close> (\<^verbatim>\<open>PNG.sync.read\<close>) and \<^verbatim>\<open>pixelmatch\<close>.
  Both are parameters of the embedded functions, so that what is proved of the script
  holds for every decoder and every pixel-difference function. A model of
  \<^verbatim>\<open>pixelmatch\<close> written from the specification is given separately for the
  properties that depend on which pixels are counted.
\<close>

subsection \<open>Data\<close>

type_synonym byte = "8 word"

text \<open>A Node \<^verbatim>\<open>Buffer\<close>: file contents, and the RGBA bytes of a decoded image.\<close>

type_synonym buffer = "byte list"

text \<open>The object \<^verbatim>\<open>PNG.sync.read\<close> returns; four bytes per pixel, row-major.\<close>

record png =
  width :: nat
  height :: nat
  data :: buffer

text \<open>The directory tree the script reads and writes: path to contents.\<close>

type_synonym filesystem = "string \<rightharpoonup> buffer"

text \<open>
  Every failure of the script is a JavaScript \<^verbatim>\<open>Error\<close> that is thrown; the
  constructors record where it is thrown, under the names of the specification's taxonomy:
  \<^item> \<open>StorageError\<close>: \<^verbatim>\<open>readFile\<close> rejects (no such file);
  \<^item> \<open>ImageDecodeError\<close>: \<^verbatim>\<open>PNG.sync.read\<close> throws;
  \<^item> \<open>DimensionMismatchError\<close>: \<^verbatim>\<open>pixelmatch\<close> throws;
  \<^item> \<open>ComparisonFailed\<close>: \<^verbatim>\<open>main\<close> throws because the comparison
    returned false;
  \<^item> \<open>ExecError\<close>: \<^verbatim>\<open>exec\<close> rejects because the command failed.
  \<open>StorageError\<close> is also what \<^verbatim>\<open>access\<close> throws on a missing file.
\<close>

datatype error =
  StorageError | ImageDecodeError | DimensionMismatchError | ComparisonFailed | ExecError

text \<open>
  A JavaScript number, as far as \<^verbatim>\<open>compareScreenshots\<close> can produce one. Pixel
  counts are integers; their quotient is computed here in exact rational arithmetic
  (the rounding of IEEE doubles is not modelled), and the values a zero denominator gives
  are kept apart.
\<close>

datatype number = Num rat | NaN | PosInfinity | NegInfinity

text \<open>\<^verbatim>\<open>mismatchedPixels / (width * height)\<close>, both operands non-negative integers.\<close>

definition js_div :: "nat \<Rightarrow> nat \<Rightarrow> number" where
  "js_div n d =
     (if d = 0 then (if n = 0 then NaN else PosInfinity)
      else Num (of_nat n / of_nat d))"

text \<open>\<^verbatim>\<open>x * 100\<close>\<close>

fun js_times_100 :: "number \<Rightarrow> number" where
  "js_times_100 (Num r) = Num (r * 100)"
| "js_times_100 NaN = NaN"
| "js_times_100 PosInfinity = PosInfinity"
| "js_times_100 NegInfinity = NegInfinity"

text \<open>\<^verbatim>\<open>100 - x\<close>\<close>

fun js_100_minus :: "number \<Rightarrow> number" where
  "js_100_minus (Num r) = Num (100 - r)"
| "js_100_minus NaN = NaN"
| "js_100_minus PosInfinity = NegInfinity"
| "js_100_minus NegInfinity = PosInfinity"

text \<open>\<^verbatim>\<open>x >= y\<close>: false as soon as one side is \<^verbatim>\<open>NaN\<close>.\<close>

fun js_ge :: "number \<Rightarrow> number \<Rightarrow> bool" where
  "js_ge NaN _ = False"
| "js_ge _ NaN = False"
| "js_ge (Num a) (Num b) = (a \<ge> b)"
| "js_ge PosInfinity _ = True"
| "js_ge _ NegInfinity = True"
| "js_ge (Num _) PosInfinity = False"
| "js_ge NegInfinity _ = False"

text \<open>\<^verbatim>\<open>x <= y\<close>\<close>

definition js_le :: "number \<Rightarrow> number \<Rightarrow> bool" where
  "js_le x y = js_ge y x"

text \<open>
  What one call of \<^verbatim>\<open>compareScreenshots\<close> computes: the local
  \<^verbatim>\<open>mismatchedPixels\<close>, the local \<^verbatim>\<open>similarity\<close> (which the function
  logs) and the boolean it returns.
\<close>

record comparison =
  mismatchedPixels :: nat
  similarity :: number
  passed :: bool

subsection \<open>File operations\<close>

text \<open>\<^verbatim>\<open>s.startsWith(p)\<close>\<close>

definition startsWith :: "string \<Rightarrow> string \<Rightarrow> bool" where
  "startsWith s p = (take (length p) s = p)"

text \<open>\<^verbatim>\<open>await readFile(path)\<close>: rejects when there is no such file.\<close>

definition readFile :: "filesystem \<Rightarrow> string \<Rightarrow> error + buffer" where
  "readFile fs path = (case fs path of None \<Rightarrow> Inl StorageError | Some b \<Rightarrow> Inr b)"

text \<open>\<^verbatim>\<open>await writeFile(path, contents)\<close>: creates or overwrites.\<close>

definition writeFile :: "filesystem \<Rightarrow> string \<Rightarrow> buffer \<Rightarrow> filesystem" where
  "writeFile fs path contents = fs(path \<mapsto> contents)"

text \<open>\<^verbatim>\<open>fs.existsSync(path)\<close>\<close>

definition existsSync :: "filesystem \<Rightarrow> string \<Rightarrow> bool" where
  "existsSync fs path = (fs path \<noteq> None)"

text \<open>
  The path \<^verbatim>\<open>compareScreenshots\<close> reads for an argument:
  \<^verbatim>\<open>name.startsWith('screenshots/') ? name : `screenshots/${name}`\<close>.
\<close>

definition screenshotPath :: "string \<Rightarrow> string" where
  "screenshotPath name =
     (if startsWith name ''screenshots/'' then name else ''screenshots/'' @ name)"

text \<open>
  \<^verbatim>\<open>takeScreenshot(filename)\<close> runs the external \<^verbatim>\<open>import\<close> command
  on \<^verbatim>\<open>screenshots/<filename>\<close>. The command is outside the script: it exits
  with a failure (\<^verbatim>\<open>exec\<close> rejects), or it exits normally having written the
  file or not. The function then checks with \<^verbatim>\<open>access\<close> that the file is
  there, and throws when it is not.
\<close>

datatype import_outcome = ExitFailure | Written buffer | NothingWritten

definition takeScreenshot ::
  "filesystem \<Rightarrow> string \<Rightarrow> import_outcome \<Rightarrow> error + filesystem" where
  "takeScreenshot fs filename outcome =
     (let fullPath = ''screenshots/'' @ filename in
      case outcome of
        ExitFailure \<Rightarrow> Inl ExecError
      | Written contents \<Rightarrow> Inr (writeFile fs fullPath contents)
      | NothingWritten \<Rightarrow> if existsSync fs fullPath then Inr fs else Inl StorageError)"

subsection \<open>compareScreenshots\<close>

text \<open>
  The types of the two library functions. \<^verbatim>\<open>PNG.sync.read(buffer)\<close> returns an
  image or throws (\<open>None\<close>). \<^verbatim>\<open>pixelmatch(img1, img2, output, width, height,
  {threshold})\<close> returns a count or throws (\<open>None\<close>); the \<^verbatim>\<open>output\<close> image it
  draws into is never read by the script and is left out. In the function below, \<open>m\<close>
  and \<open>sim\<close> are the locals \<^verbatim>\<open>mismatchedPixels\<close> and \<^verbatim>\<open>similarity\<close>.
\<close>

type_synonym png_reader = "buffer \<Rightarrow> png option"

type_synonym pixel_matcher = "buffer \<Rightarrow> buffer \<Rightarrow> nat \<Rightarrow> nat \<Rightarrow> rat \<Rightarrow> nat option"

definition compareScreenshots ::
  "png_reader \<Rightarrow> pixel_matcher \<Rightarrow> filesystem \<Rightarrow> string \<Rightarrow> string \<Rightarrow> error + comparison" where
  "compareScreenshots read_png pm fs originalScreenshot currentScreenshot =
     (case readFile fs (screenshotPath originalScreenshot) of
        Inl e \<Rightarrow> Inl e
      | Inr originalBuffer \<Rightarrow>
     (case readFile fs (screenshotPath currentScreenshot) of
        Inl e \<Rightarrow> Inl e
      | Inr currentBuffer \<Rightarrow>
     (case read_png originalBuffer of
        None \<Rightarrow> Inl ImageDecodeError
      | Some originalPng \<Rightarrow>
     (case read_png currentBuffer of
        None \<Rightarrow> Inl ImageDecodeError
      | Some currentPng \<Rightarrow>
     (case pm (data originalPng) (data currentPng)
              (width originalPng) (height originalPng) (1 / 10) of
        None \<Rightarrow> Inl DimensionMismatchError
      | Some m \<Rightarrow>
          let mismatchPercentage =
                js_times_100 (js_div m (width originalPng * height originalPng));
              sim = js_100_minus mismatchPercentage
          in Inr \<lparr>mismatchedPixels = m, similarity = sim,
                   passed = js_ge sim (Num 90)\<rparr>)))))"

subsection \<open>The baseline blocks of main\<close>

text \<open>
  \<^verbatim>\<open>main\<close> has one block for the key \<^verbatim>\<open>initial\<close> and one for the key
  \<^verbatim>\<open>final\<close>; the file names are written here with the key as an argument.
\<close>

definition baselineName :: "string \<Rightarrow> string" where
  "baselineName key = ''baseline_'' @ key @ ''.png''"

definition baselinePath :: "string \<Rightarrow> string" where
  "baselinePath key = ''screenshots/'' @ baselineName key"

text \<open>\<^verbatim>\<open>fs.existsSync('screenshots/baseline_<key>.png')\<close>\<close>

definition hasBaseline :: "filesystem \<Rightarrow> string \<Rightarrow> bool" where
  "hasBaseline fs key = existsSync fs (baselinePath key)"

text \<open>
  \<^verbatim>\<open>await writeFile(`screenshots/baseline_<key>.png`,
  await readFile(`screenshots/${screenshotName}`))\<close>
\<close>

definition establishBaseline :: "filesystem \<Rightarrow> string \<Rightarrow> string \<Rightarrow> error + filesystem" where
  "establishBaseline fs key screenshotName =
     (case readFile fs (''screenshots/'' @ screenshotName) of
        Inl e \<Rightarrow> Inl e
      | Inr contents \<Rightarrow> Inr (writeFile fs (baselinePath key) contents))"

text \<open>\<^verbatim>\<open>await compareScreenshots('baseline_<key>.png', current)\<close>\<close>

definition compare ::
  "png_reader \<Rightarrow> pixel_matcher \<Rightarrow> filesystem \<Rightarrow> string \<Rightarrow> string \<Rightarrow> error + comparison" where
  "compare read_png pm fs key current =
     compareScreenshots read_png pm fs (baselineName key) current"

text \<open>
  One block: \<open>current\<close> is the argument handed to \<^verbatim>\<open>compareScreenshots\<close>,
  \<open>screenshotName\<close> the file name of the fresh screenshot. A comparison that returns
  false makes \<^verbatim>\<open>main\<close> throw; any other exception passes through unchanged
  to the \<^verbatim>\<open>catch\<close> of \<^verbatim>\<open>main\<close>.
\<close>

definition baselineBlock ::
  "png_reader \<Rightarrow> pixel_matcher \<Rightarrow> filesystem \<Rightarrow> string \<Rightarrow> string \<Rightarrow> string
     \<Rightarrow> error + filesystem" where
  "baselineBlock read_png pm fs key current screenshotName =
     (if hasBaseline fs key then
        (case compare read_png pm fs key current of
           Inl e \<Rightarrow> Inl e
         | Inr r \<Rightarrow> if \<not> passed r then Inl ComparisonFailed else Inr fs)
      else establishBaseline fs key screenshotName)"

text \<open>The block after the initial screenshot: the bare file name is compared.\<close>

definition checkInitial ::
  "png_reader \<Rightarrow> pixel_matcher \<Rightarrow> filesystem \<Rightarrow> string \<Rightarrow> error + filesystem" where
  "checkInitial read_png pm fs screenshotNameInitial =
     baselineBlock read_png pm fs ''initial'' screenshotNameInitial screenshotNameInitial"

text \<open>The block after the final screenshot: the name is prefixed by the caller.\<close>

definition checkFinal ::
  "png_reader \<Rightarrow> pixel_matcher \<Rightarrow> filesystem \<Rightarrow> string \<Rightarrow> error + filesystem" where
  "checkFinal read_png pm fs screenshotNameFinal =
     baselineBlock read_png pm fs ''final''
       (''screenshots/'' @ screenshotNameFinal) screenshotNameFinal"

text \<open>
  The writes the script makes to the file system, in any order and number:
  \<^verbatim>\<open>takeScreenshot\<close> has the \<^verbatim>\<open>import\<close> command write
  \<^verbatim>\<open>screenshots/<filename>\<close>, and a baseline block writes a baseline. The script
  removes no file.
\<close>

datatype fs_write = TakeScreenshot string buffer | SaveBaseline string buffer

fun fs_apply :: "filesystem \<Rightarrow> fs_write \<Rightarrow> filesystem" where
  "fs_apply fs (TakeScreenshot filename contents) =
     writeFile fs (''screenshots/'' @ filename) contents"
| "fs_apply fs (SaveBaseline key contents) = writeFile fs (baselinePath key) contents"

definition fs_run :: "filesystem \<Rightarrow> fs_write list \<Rightarrow> filesystem" where
  "fs_run fs ws = foldl fs_apply fs ws"

subsection \<open>The pixel-difference library, from the specification\<close>

text \<open>
  \<^verbatim>\<open>pixelmatch\<close> is a library the script imports; its code is not under the
  repository's sources. The four definitions of this subsection are written from the
  specification's description of the comparison instead.
\<close>

text \<open>
  Modelled from the spec: the difference of one channel of \<^verbatim>\<open>pixelmatch\<close>
  (missing from the sources), "on a normalized [0,1] scale".
\<close>

definition channelDelta :: "byte \<Rightarrow> byte \<Rightarrow> rat" where
  "channelDelta a b = \<bar>of_nat (unat a) - of_nat (unat b)\<bar> / 255"

text \<open>
  Modelled from the spec: the test \<^verbatim>\<open>pixelmatch\<close> (missing from the sources)
  makes on pixel \<open>i\<close>, "whether the candidate differs from the baseline by more than a
  fixed per-channel threshold": one of the four channels of the pixel differs by more
  than the threshold.
\<close>

definition pixelMismatch :: "rat \<Rightarrow> buffer \<Rightarrow> buffer \<Rightarrow> nat \<Rightarrow> bool" where
  "pixelMismatch threshold img1 img2 i =
     list_ex (\<lambda>c. channelDelta (img1 ! (4 * i + c)) (img2 ! (4 * i + c)) > threshold)
       [0, 1, 2, 3]"

text \<open>
  Modelled from the spec: the loop of \<^verbatim>\<open>pixelmatch\<close> (missing from the sources)
  that "computes, for every pixel, whether the candidate differs [and] counts
  mismatches", over the first \<open>n\<close> pixels.
\<close>

fun countMismatches :: "rat \<Rightarrow> buffer \<Rightarrow> buffer \<Rightarrow> nat \<Rightarrow> nat" where
  "countMismatches threshold img1 img2 0 = 0"
| "countMismatches threshold img1 img2 (Suc i) =
     countMismatches threshold img1 img2 i
       + (if pixelMismatch threshold img1 img2 i then 1 else 0)"

text \<open>
  Modelled from the spec: \<^verbatim>\<open>pixelmatch\<close>, the pixel-difference function of the
  library the script imports, missing from the sources. It counts the mismatched pixels
  of a \<open>width \<times> height\<close> image. In the specification "mismatched dimensions are a hard
  error"; the function is handed the two pixel buffers and one width and height (the
  script passes the baseline's), so the error of the model is raised on the sizes of the
  buffers: each must hold four bytes for every one of the \<open>width \<times> height\<close> pixels. No
  byte is then read outside a buffer.
\<close>

definition pixelmatch :: pixel_matcher where
  "pixelmatch img1 img2 w h threshold =
     (if length img1 \<noteq> length img2 \<or> length img1 \<noteq> w * h * 4 then None
      else Some (countMismatches threshold img1 img2 (w * h)))"

text \<open>
  An image as the specification's data model has it: a positive number of pixels and an
  RGBA buffer of exactly that many pixels.
\<close>

definition wf_png :: "png \<Rightarrow> bool" where
  "wf_png p = (0 < width p \<and> 0 < height p \<and> length (data p) = width p * height p * 4)"

text \<open>The pixels of a candidate that are mismatched against a baseline.\<close>

definition mismatchedSet :: "png \<Rightarrow> png \<Rightarrow> nat set" where
  "mismatchedSet baseline candidate =
     {i. i < width baseline * height baseline
         \<and> pixelMismatch (1 / 10) (data baseline) (data candidate) i}"

subsection \<open>Concrete images\<close>

text \<open>
  The images of the specification's scenarios, and a reader that decodes four one-byte
  files to them and rejects every other file; they are the concrete inputs on which the
  theorems below are evaluated.
\<close>

definition white :: buffer where
  "white = [255, 255, 255, 255]"

definition black :: buffer where
  "black = [0, 0, 0, 255]"

definition white2x2 :: png where
  "white2x2 = \<lparr>width = 2, height = 2, data = white @ white @ white @ white\<rparr>"

definition white2x3 :: png where
  "white2x3 = \<lparr>width = 2, height = 3,
                data = white @ white @ white @ white @ white @ white\<rparr>"

definition white3x2 :: png where
  "white3x2 = \<lparr>width = 3, height = 2,
                data = white @ white @ white @ white @ white @ white\<rparr>"

text \<open>The image \<open>p\<close> with pixel \<open>k\<close> replaced by the four bytes \<open>px\<close>.\<close>

definition paint :: "png \<Rightarrow> nat \<Rightarrow> buffer \<Rightarrow> png" where
  "paint p k px = p\<lparr>data := take (4 * k) (data p) @ px @ drop (4 * k + 4) (data p)\<rparr>"

definition demo_reader :: png_reader where
  "demo_reader =
     map_of [([1], white2x2), ([2], paint white2x2 1 black), ([3], white2x3), ([4], white3x2)]"

text \<open>An image without pixels, and a colour close to white.\<close>

definition empty0x2 :: png where
  "empty0x2 = \<lparr>width = 0, height = 2, data = []\<rparr>"

definition offwhite :: buffer where
  "offwhite = [250, 250, 250, 255]"

text \<open>
  The pixels of a candidate that are changed against a baseline at all: one of the four
  bytes differs, by however little.
\<close>

definition changedPixels :: "png \<Rightarrow> png \<Rightarrow> nat list" where
  "changedPixels baseline candidate =
     filter (\<lambda>i. take 4 (drop (4 * i) (data candidate))
                  \<noteq> take 4 (drop (4 * i) (data baseline)))
       [0 ..< width baseline * height baseline]"

section \<open>Properties\<close>

subsection \<open>Auxiliary facts\<close>

lemma screenshotPath_baselineName: "screenshotPath (baselineName key) = baselinePath key"
  by (simp add: screenshotPath_def baselineName_def baselinePath_def startsWith_def)

lemma screenshotPath_prefixed:
  "screenshotPath (''screenshots/'' @ name) = ''screenshots/'' @ name"
  by (simp add: screenshotPath_def startsWith_def)

lemma screenshotPath_bare:
  "\<not> startsWith name ''screenshots/'' \<Longrightarrow> screenshotPath name = ''screenshots/'' @ name"
  by (simp add: screenshotPath_def)

text \<open>The names \<^verbatim>\<open>main\<close> gives its screenshots never carry the directory prefix.\<close>

lemma screenshotPath_generated:
  "screenshotPath (''screenshot_'' @ rest) = ''screenshots/screenshot_'' @ rest"
  by (simp add: screenshotPath_def startsWith_def)

text \<open>The two baseline files of \<^verbatim>\<open>main\<close>, as the source spells them.\<close>

lemma baselinePath_initial: "baselinePath ''initial'' = ''screenshots/baseline_initial.png''"
  by (simp add: baselinePath_def baselineName_def)

lemma baselinePath_final: "baselinePath ''final'' = ''screenshots/baseline_final.png''"
  by (simp add: baselinePath_def baselineName_def)

text \<open>Once both files are read and decoded, only the library call can still fail.\<close>

lemma compareScreenshots_decoded:
  assumes "fs (screenshotPath originalScreenshot) = Some originalBuffer"
    and "fs (screenshotPath currentScreenshot) = Some currentBuffer"
    and "read_png originalBuffer = Some originalPng"
    and "read_png currentBuffer = Some currentPng"
  shows "compareScreenshots read_png pm fs originalScreenshot currentScreenshot =
     (case pm (data originalPng) (data currentPng)
              (width originalPng) (height originalPng) (1 / 10) of
        None \<Rightarrow> Inl DimensionMismatchError
      | Some m \<Rightarrow>
          Inr \<lparr>mismatchedPixels = m,
               similarity =
                 js_100_minus (js_times_100 (js_div m (width originalPng * height originalPng))),
               passed =
                 js_ge (js_100_minus
                          (js_times_100 (js_div m (width originalPng * height originalPng))))
                       (Num 90)\<rparr>)"
  using assms
  by (simp add: compareScreenshots_def readFile_def Let_def split: option.split)

lemma similarity_positive:
  "0 < t \<Longrightarrow>
     js_100_minus (js_times_100 (js_div m t)) = Num (100 - of_nat m / of_nat t * 100)"
  by (simp add: js_div_def)

text \<open>The loop counts the mismatched pixels below its bound.\<close>

lemma countMismatches_card:
  "countMismatches t a b n = card {i. i < n \<and> pixelMismatch t a b i}"
proof (induction n)
  case 0
  then show ?case by simp
next
  case (Suc n)
  let ?S = "\<lambda>n. {i. i < n \<and> pixelMismatch t a b i}"
  have fin: "finite (?S n)" by simp
  show ?case
  proof (cases "pixelMismatch t a b n")
    case True
    then have "?S (Suc n) = insert n (?S n)" by (auto simp: less_Suc_eq)
    moreover have "n \<notin> ?S n" by simp
    ultimately have "card (?S (Suc n)) = Suc (card (?S n))" using fin by simp
    with True Suc show ?thesis by simp
  next
    case False
    then have "?S (Suc n) = ?S n" by (auto simp: less_Suc_eq)
    with False Suc show ?thesis by simp
  qed
qed

lemma countMismatches_numeral:
  "countMismatches t a b (numeral k) =
     countMismatches t a b (pred_numeral k)
       + (if pixelMismatch t a b (pred_numeral k) then 1 else 0)"
  by (simp add: numeral_eq_Suc)

lemma pixelMismatch_same: "\<not> pixelMismatch (1 / 10) a a i"
  by (simp add: pixelMismatch_def channelDelta_def)

lemma countMismatches_same: "countMismatches (1 / 10) a a n = 0"
  by (induction n) (simp_all add: pixelMismatch_same)

lemma pixelmatch_wf:
  assumes "wf_png baseline" and "wf_png candidate"
    and "width candidate * height candidate = width baseline * height baseline"
  shows "pixelmatch (data baseline) (data candidate) (width baseline) (height baseline) t =
           Some (countMismatches t (data baseline) (data candidate)
                   (width baseline * height baseline))"
  using assms by (simp add: pixelmatch_def wf_png_def)

lemmas demo_defs =
  demo_reader_def white2x2_def white2x3_def white3x2_def paint_def white_def black_def
  wf_png_def

lemmas eval_defs =
  compareScreenshots_def readFile_def screenshotPath_def startsWith_def pixelmatch_def
  pixelMismatch_def channelDelta_def js_div_def Let_def countMismatches_numeral

text \<open>After a screenshot was taken, its file is there.\<close>

lemma takeScreenshot_file:
  "takeScreenshot fs filename outcome = Inr fs' \<Longrightarrow>
     fs' (''screenshots/'' @ filename) \<noteq> None"
  by (auto simp: takeScreenshot_def existsSync_def writeFile_def Let_def
        split: import_outcome.splits if_splits)

text \<open>
  An image without pixels: the quotient is \<^verbatim>\<open>0 / 0\<close>, the similarity is
  \<^verbatim>\<open>NaN\<close> and the comparison returns false.
\<close>

lemma compare_empty_image:
  assumes "fs (screenshotPath originalScreenshot) = Some originalBuffer"
    and "fs (screenshotPath currentScreenshot) = Some currentBuffer"
    and "read_png originalBuffer = Some originalPng"
    and "read_png currentBuffer = Some currentPng"
    and "width originalPng * height originalPng = 0"
    and "pm (data originalPng) (data currentPng) (width originalPng) (height originalPng)
           (1 / 10) = Some 0"
  shows "compareScreenshots read_png pm fs originalScreenshot currentScreenshot
           = Inr \<lparr>mismatchedPixels = 0, similarity = NaN, passed = False\<rparr>"
  using compareScreenshots_decoded [OF assms(1-4), of pm] assms(5,6)
  by (simp add: js_div_def)

text \<open>Fewer mismatched pixels among the same number of pixels: no lower similarity.\<close>

lemma js_similarity_antitone:
  assumes "0 < t" and "m1 \<le> m2"
  shows "js_le (js_100_minus (js_times_100 (js_div m2 t)))
               (js_100_minus (js_times_100 (js_div m1 t)))"
proof -
  have "(of_nat m1 :: rat) * 100 / of_nat t \<le> of_nat m2 * 100 / of_nat t"
    using assms by (intro divide_right_mono) simp_all
  then show ?thesis
    using assms(1) by (simp add: js_div_def js_le_def)
qed

lemma mismatchedSet_finite: "finite (mismatchedSet baseline candidate)"
  by (simp add: mismatchedSet_def)

text \<open>
  Two files that decode to the same image, of at least one pixel, and a pixel-difference
  function that finds no mismatch between the image and itself.
\<close>

lemma compare_same_image:
  assumes "fs (screenshotPath originalScreenshot) = Some originalBuffer"
    and "fs (screenshotPath currentScreenshot) = Some currentBuffer"
    and "read_png originalBuffer = Some img"
    and "read_png currentBuffer = Some img"
    and "0 < width img * height img"
    and "pm (data img) (data img) (width img) (height img) (1 / 10) = Some 0"
  shows "compareScreenshots read_png pm fs originalScreenshot currentScreenshot
           = Inr \<lparr>mismatchedPixels = 0, similarity = Num 100, passed = True\<rparr>"
  using compareScreenshots_decoded [OF assms(1-4), of pm] assms(5,6)
  by (simp add: js_div_def)

text \<open>The model of \<^verbatim>\<open>pixelmatch\<close> is such a function.\<close>

lemma pixelmatch_same:
  "wf_png img \<Longrightarrow>
     pixelmatch (data img) (data img) (width img) (height img) (1 / 10) = Some 0"
  by (simp add: pixelmatch_wf countMismatches_same)

text \<open>
  The model of \<^verbatim>\<open>pixelmatch\<close> rejects two RGBA buffers exactly when the
  numbers of pixels of the two images differ.
\<close>

lemma pixelmatch_sized:
  assumes "length (data baseline) = width baseline * height baseline * 4"
    and "length (data candidate) = width candidate * height candidate * 4"
  shows "(pixelmatch (data baseline) (data candidate) (width baseline) (height baseline) t
            = None)
         = (width candidate * height candidate \<noteq> width baseline * height baseline)"
  using assms by (auto simp: pixelmatch_def)

text \<open>\<^verbatim>\<open>compareScreenshots\<close> never throws the error of a failed comparison.\<close>

lemma compareScreenshots_not_ComparisonFailed:
  "compareScreenshots read_png pm fs originalScreenshot currentScreenshot
     \<noteq> Inl ComparisonFailed"
  by (auto simp: compareScreenshots_def readFile_def Let_def
        split: sum.splits option.splits)

text \<open>A mismatched pixel is a changed pixel.\<close>

lemma channelDelta_differs: "channelDelta a b > t \<Longrightarrow> 0 \<le> t \<Longrightarrow> a \<noteq> b"
  by (auto simp: channelDelta_def)

lemma mismatched_are_changed:
  assumes "length (data baseline) = width baseline * height baseline * 4"
    and "length (data candidate) = width baseline * height baseline * 4"
  shows "mismatchedSet baseline candidate \<subseteq> set (changedPixels baseline candidate)"
proof
  fix i
  assume "i \<in> mismatchedSet baseline candidate"
  then have i: "i < width baseline * height baseline"
    and mm: "pixelMismatch (1 / 10) (data baseline) (data candidate) i"
    by (simp_all add: mismatchedSet_def)
  from mm obtain c where cs: "c \<in> set [0, 1, 2, 3 :: nat]"
    and delta: "channelDelta (data baseline ! (4 * i + c)) (data candidate ! (4 * i + c))
                  > 1 / 10"
    unfolding pixelMismatch_def list_ex_iff by blast
  from cs have c: "c < 4" by auto
  from delta have d: "data baseline ! (4 * i + c) \<noteq> data candidate ! (4 * i + c)"
    by (rule channelDelta_differs) simp
  have len: "4 * i + c < length (data baseline)" "4 * i + c < length (data candidate)"
    using i c assms by simp_all
  have "take 4 (drop (4 * i) (data candidate)) \<noteq> take 4 (drop (4 * i) (data baseline))"
  proof
    assume eq: "take 4 (drop (4 * i) (data candidate)) = take 4 (drop (4 * i) (data baseline))"
    have "take 4 (drop (4 * i) (data candidate)) ! c = data candidate ! (4 * i + c)"
      using c len by simp
    moreover have "take 4 (drop (4 * i) (data baseline)) ! c = data baseline ! (4 * i + c)"
      using c len by simp
    ultimately show False using eq d by simp
  qed
  with i show "i \<in> set (changedPixels baseline candidate)"
    by (simp add: changedPixels_def)
qed

text \<open>The changed pixels of two candidates against the white 2 by 2 image.\<close>

lemma changedPixels_black:
  "changedPixels white2x2 (paint white2x2 0 black) = [0]"
  by (simp add: changedPixels_def white2x2_def paint_def white_def black_def upt_rec)

lemma changedPixels_offwhite:
  "changedPixels white2x2 (paint (paint white2x2 0 offwhite) 1 offwhite) = [0, 1]"
  by (simp add: changedPixels_def white2x2_def paint_def white_def offwhite_def upt_rec)

text \<open>No write of the script removes a file.\<close>

lemma fs_run_keeps_files: "fs path \<noteq> None \<Longrightarrow> fs_run fs ws path \<noteq> None"
  unfolding fs_run_def
proof (induction ws arbitrary: fs)
  case Nil
  then show ?case by simp
next
  case (Cons w ws)
  have "fs_apply fs w path \<noteq> None"
    using Cons.prems by (cases w) (simp_all add: writeFile_def)
  then show ?case using Cons.IH by simp
qed

subsection \<open>The similarity formula\<close>

text \<open>
  C1. For two images of the same dimensions, \<^verbatim>\<open>compareScreenshots\<close> computes
  \<open>similarity = 100 * (1 - mismatchedPixels / totalPixels)\<close>, where \<open>totalPixels\<close> is
  \<open>width * height\<close> and \<open>mismatchedPixels\<close> is the number of pixels one of whose channels
  differs by more than 0.1 on the normalized scale. The count is that of the model of
  \<^verbatim>\<open>pixelmatch\<close>; the arithmetic is exact (the script's
  \<^verbatim>\<open>100 - (m / (w * h)) * 100\<close> and the formula agree up to the rounding of
  doubles).
\<close>

theorem compare_similarity_formula:
  assumes "fs (screenshotPath originalScreenshot) = Some originalBuffer"
    and "fs (screenshotPath currentScreenshot) = Some currentBuffer"
    and "read_png originalBuffer = Some baseline"
    and "read_png currentBuffer = Some candidate"
    and "wf_png baseline" and "wf_png candidate"
    and "width candidate = width baseline" and "height candidate = height baseline"
  shows "\<exists>r. compareScreenshots read_png pixelmatch fs originalScreenshot currentScreenshot
               = Inr r
           \<and> mismatchedPixels r = card (mismatchedSet baseline candidate)
           \<and> similarity r =
               Num (100 * (1 - of_nat (mismatchedPixels r)
                                 / of_nat (width baseline * height baseline)))"
proof -
  let ?t = "width baseline * height baseline"
  let ?m = "countMismatches (1 / 10) (data baseline) (data candidate) ?t"
  have pm: "pixelmatch (data baseline) (data candidate) (width baseline) (height baseline)
              (1 / 10) = Some ?m"
    using assms(5-8) by (simp add: pixelmatch_wf)
  have pos: "0 < ?t" using assms(5) by (simp add: wf_png_def)
  have card: "?m = card (mismatchedSet baseline candidate)"
    by (simp add: countMismatches_card mismatchedSet_def)
  have sim: "js_100_minus (js_times_100 (js_div ?m ?t))
               = Num (100 * (1 - of_nat ?m / of_nat ?t))"
    using pos by (simp add: similarity_positive algebra_simps)
  show ?thesis
    using compareScreenshots_decoded [OF assms(1-4), of pixelmatch] pm card sim by simp
qed

theorem compare_similarity_formula_witness:
  "\<exists>r. compareScreenshots demo_reader pixelmatch
          [''screenshots/baseline_initial.png'' \<mapsto> [1],
           ''screenshots/screenshot_initial_1.png'' \<mapsto> [2]]
          ''baseline_initial.png'' ''screenshot_initial_1.png'' = Inr r
       \<and> mismatchedPixels r = card (mismatchedSet white2x2 (paint white2x2 1 black))
       \<and> similarity r =
           Num (100 * (1 - of_nat (mismatchedPixels r)
                             / of_nat (width white2x2 * height white2x2)))"
  using compare_similarity_formula [of
      "[''screenshots/baseline_initial.png'' \<mapsto> [1],
        ''screenshots/screenshot_initial_1.png'' \<mapsto> [2]]"
      "''baseline_initial.png''" "[1]" "''screenshot_initial_1.png''" "[2]"
      demo_reader white2x2 "paint white2x2 1 black"]
  by (simp add: demo_defs screenshotPath_def startsWith_def)

text \<open>
  C3. Whenever \<^verbatim>\<open>compareScreenshots\<close> returns, for every decoder and every
  pixel-difference function, the boolean it returns is \<^verbatim>\<open>similarity >= 90\<close>: it
  is true exactly when the similarity is a number that is at least 90.
\<close>

theorem passed_iff_threshold:
  assumes "compareScreenshots read_png pm fs originalScreenshot currentScreenshot = Inr r"
  shows "passed r = js_ge (similarity r) (Num 90)
         \<and> (\<forall>s. similarity r = Num s \<longrightarrow> passed r = (s \<ge> 90))"
  using assms
  by (auto simp: compareScreenshots_def Let_def split: sum.splits option.splits)

theorem passed_iff_threshold_witness:
  "compareScreenshots demo_reader pixelmatch
      [''screenshots/baseline_initial.png'' \<mapsto> [1],
       ''screenshots/screenshot_initial_1.png'' \<mapsto> [2]]
      ''baseline_initial.png'' ''screenshot_initial_1.png''
     = Inr \<lparr>mismatchedPixels = 1, similarity = Num 75, passed = False\<rparr>
   \<and> passed \<lparr>mismatchedPixels = 1, similarity = Num 75, passed = False\<rparr>
     = js_ge (similarity \<lparr>mismatchedPixels = 1, similarity = Num 75, passed = False\<rparr>)
         (Num 90)"
proof -
  have run: "compareScreenshots demo_reader pixelmatch
      [''screenshots/baseline_initial.png'' \<mapsto> [1],
       ''screenshots/screenshot_initial_1.png'' \<mapsto> [2]]
      ''baseline_initial.png'' ''screenshot_initial_1.png''
     = Inr \<lparr>mismatchedPixels = 1, similarity = Num 75, passed = False\<rparr>"
    by (simp add: demo_defs eval_defs)
  from run passed_iff_threshold [OF run] show ?thesis by blast
qed

subsection \<open>Dimensions\<close>

text \<open>
  C4. \<^verbatim>\<open>compareScreenshots\<close> takes the width and the height from the first
  (baseline) image only: they are the dimensions handed to the pixel-difference function
  and the denominator of the similarity. Of the second image only the pixel buffer is
  used, so that a decoder reporting any other width and height for it gives the same
  outcome. This holds for every decoder and every pixel-difference function.
\<close>

theorem compare_uses_baseline_dimensions:
  assumes "fs (screenshotPath originalScreenshot) = Some originalBuffer"
    and "fs (screenshotPath currentScreenshot) = Some currentBuffer"
    and "read_png originalBuffer = Some originalPng"
    and "read_png currentBuffer = Some currentPng"
    and "read_png' originalBuffer = Some originalPng"
    and "read_png' currentBuffer = Some (currentPng\<lparr>width := w', height := h'\<rparr>)"
  shows "compareScreenshots read_png pm fs originalScreenshot currentScreenshot =
     (case pm (data originalPng) (data currentPng)
              (width originalPng) (height originalPng) (1 / 10) of
        None \<Rightarrow> Inl DimensionMismatchError
      | Some m \<Rightarrow>
          Inr \<lparr>mismatchedPixels = m,
               similarity =
                 js_100_minus (js_times_100 (js_div m (width originalPng * height originalPng))),
               passed =
                 js_ge (js_100_minus
                          (js_times_100 (js_div m (width originalPng * height originalPng))))
                       (Num 90)\<rparr>)
    \<and> compareScreenshots read_png' pm fs originalScreenshot currentScreenshot =
        compareScreenshots read_png pm fs originalScreenshot currentScreenshot"
  using compareScreenshots_decoded [OF assms(1-4), of pm]
    compareScreenshots_decoded [OF assms(1,2,5,6), of pm]
  by simp

theorem compare_uses_baseline_dimensions_witness:
  "compareScreenshots
      (map_of [([1], white2x2), ([2], (paint white2x2 1 black)\<lparr>width := 4, height := 1\<rparr>)])
      pixelmatch
      [''screenshots/baseline_initial.png'' \<mapsto> [1],
       ''screenshots/screenshot_initial_1.png'' \<mapsto> [2]]
      ''baseline_initial.png'' ''screenshot_initial_1.png''
   = compareScreenshots demo_reader pixelmatch
      [''screenshots/baseline_initial.png'' \<mapsto> [1],
       ''screenshots/screenshot_initial_1.png'' \<mapsto> [2]]
      ''baseline_initial.png'' ''screenshot_initial_1.png''"
  using compare_uses_baseline_dimensions [where
      fs = "[''screenshots/baseline_initial.png'' \<mapsto> [1],
        ''screenshots/screenshot_initial_1.png'' \<mapsto> [2]]"
      and originalScreenshot = "''baseline_initial.png''" and originalBuffer = "[1]"
      and currentScreenshot = "''screenshot_initial_1.png''" and currentBuffer = "[2]"
      and read_png = demo_reader and originalPng = white2x2
      and currentPng = "paint white2x2 1 black"
      and read_png' = "map_of [([1], white2x2),
             ([2], (paint white2x2 1 black)\<lparr>width := 4, height := 1\<rparr>)]"
      and w' = 4 and h' = 1 and pm = pixelmatch]
  by (simp add: demo_reader_def screenshotPath_def startsWith_def)

text \<open>
  C2, as the specification states it, fails: a candidate whose width and height differ
  from the baseline's is not always rejected. A 3 by 2 candidate against a 2 by 3 baseline,
  both white, has a pixel buffer of the same size; it is compared with the baseline's
  dimensions and passes with a similarity of 100.
\<close>

theorem dimension_mismatch_counterexample:
  "width white3x2 \<noteq> width white2x3 \<and> height white3x2 \<noteq> height white2x3
   \<and> compareScreenshots demo_reader pixelmatch
        [''screenshots/baseline_initial.png'' \<mapsto> [3],
         ''screenshots/screenshot_initial_1.png'' \<mapsto> [4]]
        ''baseline_initial.png'' ''screenshot_initial_1.png''
      = Inr \<lparr>mismatchedPixels = 0, similarity = Num 100, passed = True\<rparr>"
  by (simp add: demo_defs eval_defs)

text \<open>
  C2, amended. The script checks no dimensions itself; the size check is the one of the
  pixel-difference function, on the two pixel buffers. So the comparison of two decoded
  images fails with the dimension error exactly when the candidate's number of pixels,
  \<open>width * height\<close>, differs from the baseline's, and it returns a comparison result
  exactly when the two numbers are equal, whatever the candidate's width and height.
\<close>

theorem dimension_error_iff:
  assumes "fs (screenshotPath originalScreenshot) = Some originalBuffer"
    and "fs (screenshotPath currentScreenshot) = Some currentBuffer"
    and "read_png originalBuffer = Some baseline"
    and "read_png currentBuffer = Some candidate"
    and "length (data baseline) = width baseline * height baseline * 4"
    and "length (data candidate) = width candidate * height candidate * 4"
  shows "(compareScreenshots read_png pixelmatch fs originalScreenshot currentScreenshot
            = Inl DimensionMismatchError)
         = (width candidate * height candidate \<noteq> width baseline * height baseline)
       \<and> (\<exists>r. compareScreenshots read_png pixelmatch fs originalScreenshot currentScreenshot
                 = Inr r)
         = (width candidate * height candidate = width baseline * height baseline)"
proof (cases "pixelmatch (data baseline) (data candidate) (width baseline) (height baseline)
                (1 / 10)")
  case None
  then have "width candidate * height candidate \<noteq> width baseline * height baseline"
    using pixelmatch_sized [OF assms(5,6), of "1 / 10"] by simp
  then show ?thesis
    using None compareScreenshots_decoded [OF assms(1-4), of pixelmatch] by simp
next
  case (Some m)
  then have "width candidate * height candidate = width baseline * height baseline"
    using pixelmatch_sized [OF assms(5,6), of "1 / 10"] by simp
  then show ?thesis
    using Some compareScreenshots_decoded [OF assms(1-4), of pixelmatch] by simp
qed

theorem dimension_error_iff_witness:
  "(compareScreenshots demo_reader pixelmatch
        [''screenshots/baseline_initial.png'' \<mapsto> [1],
         ''screenshots/screenshot_initial_1.png'' \<mapsto> [4]]
        ''baseline_initial.png'' ''screenshot_initial_1.png''
      = Inl DimensionMismatchError)
   = (width white3x2 * height white3x2 \<noteq> width white2x2 * height white2x2)
   \<and> width white3x2 * height white3x2 \<noteq> width white2x2 * height white2x2"
  using dimension_error_iff [of
      "[''screenshots/baseline_initial.png'' \<mapsto> [1],
        ''screenshots/screenshot_initial_1.png'' \<mapsto> [4]]"
      "''baseline_initial.png''" "[1]" "''screenshot_initial_1.png''" "[4]"
      demo_reader white2x2 white3x2]
  by (simp add: demo_defs screenshotPath_def startsWith_def)

subsection \<open>Identical images\<close>

text \<open>
  C5, as the specification states it, fails for an image without pixels: the decoder can
  return a 0 by 2 image, no pixel is mismatched, the quotient is \<^verbatim>\<open>0 / 0\<close>, the
  similarity is \<^verbatim>\<open>NaN\<close> and the comparison with an identical copy does not
  pass.
\<close>

theorem empty_copy_counterexample:
  "compareScreenshots (map_of [([5], empty0x2)]) pixelmatch
      [''screenshots/baseline_initial.png'' \<mapsto> [5],
       ''screenshots/screenshot_initial_1.png'' \<mapsto> [5]]
      ''baseline_initial.png'' ''screenshot_initial_1.png''
     = Inr \<lparr>mismatchedPixels = 0, similarity = NaN, passed = False\<rparr>"
  by (simp add: empty0x2_def eval_defs)

text \<open>
  C5, amended. An image of at least one pixel compared against a pixel-for-pixel
  identical copy of itself (two files that decode to the same image) has a similarity of
  100 and passes, for every decoder and every pixel-difference function that finds no
  mismatch between the image and itself.
\<close>

theorem identical_copy_is_similar:
  assumes "fs (screenshotPath originalScreenshot) = Some originalBuffer"
    and "fs (screenshotPath currentScreenshot) = Some currentBuffer"
    and "read_png originalBuffer = Some img"
    and "read_png currentBuffer = Some img"
    and "0 < width img * height img"
    and "pm (data img) (data img) (width img) (height img) (1 / 10) = Some 0"
  shows "compareScreenshots read_png pm fs originalScreenshot currentScreenshot
           = Inr \<lparr>mismatchedPixels = 0, similarity = Num 100, passed = True\<rparr>"
  using assms by (rule compare_same_image)

theorem identical_copy_is_similar_witness:
  "compareScreenshots demo_reader pixelmatch
      [''screenshots/baseline_initial.png'' \<mapsto> [1],
       ''screenshots/screenshot_initial_1.png'' \<mapsto> [1]]
      ''baseline_initial.png'' ''screenshot_initial_1.png''
     = Inr \<lparr>mismatchedPixels = 0, similarity = Num 100, passed = True\<rparr>"
  using identical_copy_is_similar [of
      "[''screenshots/baseline_initial.png'' \<mapsto> [1],
        ''screenshots/screenshot_initial_1.png'' \<mapsto> [1]]"
      "''baseline_initial.png''" "[1]" "''screenshot_initial_1.png''" "[1]"
      demo_reader white2x2 pixelmatch]
    pixelmatch_same [of white2x2]
  by (simp add: demo_defs screenshotPath_def startsWith_def)

text \<open>
  C6, as the specification states it, fails for an image without pixels: recording a
  0 by 2 screenshot as the baseline and comparing the same screenshot against it gives a
  similarity of \<^verbatim>\<open>NaN\<close>, not 100.
\<close>

theorem empty_round_trip_counterexample:
  "establishBaseline [''screenshots/screenshot_initial_1.png'' \<mapsto> [5]]
      ''initial'' ''screenshot_initial_1.png''
     = Inr [''screenshots/screenshot_initial_1.png'' \<mapsto> [5],
            ''screenshots/baseline_initial.png'' \<mapsto> [5]]
   \<and> compare (map_of [([5], empty0x2)]) pixelmatch
        [''screenshots/screenshot_initial_1.png'' \<mapsto> [5],
         ''screenshots/baseline_initial.png'' \<mapsto> [5]]
        ''initial'' ''screenshot_initial_1.png''
     = Inr \<lparr>mismatchedPixels = 0, similarity = NaN, passed = False\<rparr>"
  by (simp add: empty0x2_def eval_defs establishBaseline_def writeFile_def compare_def
       baselinePath_def baselineName_def)

text \<open>
  C6, amended. For a screenshot of at least one pixel: recording it as the baseline of a
  key and then comparing the same screenshot file against that key succeeds with a
  similarity of 100. The baseline file holds the bytes of the screenshot, so both decode
  to the same image. \<open>current\<close> is the argument of the comparison, either the bare file
  name or the name with its directory, as the two blocks of \<^verbatim>\<open>main\<close> pass it.
  This holds for every key, every decoder and every pixel-difference function that finds
  no mismatch between the image and itself.
\<close>

theorem establish_then_compare:
  assumes "fs (''screenshots/'' @ screenshotName) = Some contents"
    and "read_png contents = Some img"
    and "0 < width img * height img"
    and "pm (data img) (data img) (width img) (height img) (1 / 10) = Some 0"
    and "screenshotPath current = ''screenshots/'' @ screenshotName"
  shows "\<exists>fs'. establishBaseline fs key screenshotName = Inr fs'
           \<and> compare read_png pm fs' key current
               = Inr \<lparr>mismatchedPixels = 0, similarity = Num 100, passed = True\<rparr>"
proof -
  let ?fs' = "writeFile fs (baselinePath key) contents"
  have est: "establishBaseline fs key screenshotName = Inr ?fs'"
    using assms(1) by (simp add: establishBaseline_def readFile_def)
  have base: "?fs' (screenshotPath (baselineName key)) = Some contents"
    by (simp add: screenshotPath_baselineName writeFile_def)
  have cur: "?fs' (screenshotPath current) = Some contents"
    using assms(1,5) by (simp add: writeFile_def)
  have "compareScreenshots read_png pm ?fs' (baselineName key) current
          = Inr \<lparr>mismatchedPixels = 0, similarity = Num 100, passed = True\<rparr>"
    using base cur assms(2) assms(2) assms(3) assms(4) by (rule compare_same_image)
  with est show ?thesis by (simp add: compare_def)
qed

theorem establish_then_compare_witness:
  "\<exists>fs'. establishBaseline [''screenshots/screenshot_initial_1.png'' \<mapsto> [2]]
            ''initial'' ''screenshot_initial_1.png'' = Inr fs'
         \<and> compare demo_reader pixelmatch fs' ''initial'' ''screenshot_initial_1.png''
             = Inr \<lparr>mismatchedPixels = 0, similarity = Num 100, passed = True\<rparr>"
  using establish_then_compare [where
      fs = "[''screenshots/screenshot_initial_1.png'' \<mapsto> [2]]"
      and screenshotName = "''screenshot_initial_1.png''" and contents = "[2]"
      and read_png = demo_reader and img = "paint white2x2 1 black" and pm = pixelmatch
      and current = "''screenshot_initial_1.png''" and key = "''initial''"]
    pixelmatch_same [of "paint white2x2 1 black"]
  by (simp add: demo_defs screenshotPath_def startsWith_def)

subsection \<open>Monotonicity and the one-pixel scenario\<close>

text \<open>
  C7, as the specification states it, fails. The first candidate turns pixel 0 of the
  white 2 by 2 baseline black; the second changes pixels 0 and 1, both by less than the
  threshold. The changed pixels of the second include those of the first, yet the first
  has one mismatched pixel and a similarity of 75 and the second none and a similarity
  of 100. And for images without pixels both similarities are \<^verbatim>\<open>NaN\<close>, which
  is not less than or equal to itself.
\<close>

theorem changed_pixels_counterexample:
  "set (changedPixels white2x2 (paint white2x2 0 black))
     \<subseteq> set (changedPixels white2x2 (paint (paint white2x2 0 offwhite) 1 offwhite))
   \<and> compareScreenshots
        (map_of [([1], white2x2), ([6], paint white2x2 0 black),
                 ([7], paint (paint white2x2 0 offwhite) 1 offwhite)])
        pixelmatch
        [''screenshots/baseline_initial.png'' \<mapsto> [1], ''screenshots/a.png'' \<mapsto> [6],
         ''screenshots/b.png'' \<mapsto> [7]]
        ''baseline_initial.png'' ''a.png''
       = Inr \<lparr>mismatchedPixels = 1, similarity = Num 75, passed = False\<rparr>
   \<and> compareScreenshots
        (map_of [([1], white2x2), ([6], paint white2x2 0 black),
                 ([7], paint (paint white2x2 0 offwhite) 1 offwhite)])
        pixelmatch
        [''screenshots/baseline_initial.png'' \<mapsto> [1], ''screenshots/a.png'' \<mapsto> [6],
         ''screenshots/b.png'' \<mapsto> [7]]
        ''baseline_initial.png'' ''b.png''
       = Inr \<lparr>mismatchedPixels = 0, similarity = Num 100, passed = True\<rparr>
   \<and> \<not> js_le (Num 100) (Num 75)
   \<and> compareScreenshots (map_of [([5], empty0x2)]) pixelmatch
        [''screenshots/baseline_final.png'' \<mapsto> [5], ''screenshots/c.png'' \<mapsto> [5]]
        ''baseline_final.png'' ''c.png''
       = Inr \<lparr>mismatchedPixels = 0, similarity = NaN, passed = False\<rparr>
   \<and> \<not> js_le NaN NaN"
proof (intro conjI)
  show "set (changedPixels white2x2 (paint white2x2 0 black))
     \<subseteq> set (changedPixels white2x2 (paint (paint white2x2 0 offwhite) 1 offwhite))"
    by (simp only: changedPixels_black changedPixels_offwhite, simp)
  show "\<not> js_le (Num 100) (Num 75)"
    by (simp add: js_le_def)
  show "\<not> js_le NaN NaN"
    by (simp add: js_le_def)
qed (simp_all add: white2x2_def empty0x2_def paint_def white_def black_def offwhite_def
       eval_defs)

text \<open>
  C7, amended. For a baseline of at least one pixel and two candidates of the baseline's
  dimensions: the mismatched pixels of a candidate are those of its changed pixels one of
  whose channels differs from the baseline by more than the threshold, and they are the
  pixels counted. When the mismatched pixels of the second candidate include those of the
  first, the second candidate has at least as many mismatched pixels and its similarity
  is not greater than the first's.
\<close>

theorem similarity_monotone:
  assumes "fs (screenshotPath originalScreenshot) = Some originalBuffer"
    and "fs (screenshotPath first) = Some firstBuffer"
    and "fs (screenshotPath second) = Some secondBuffer"
    and "read_png originalBuffer = Some baseline"
    and "read_png firstBuffer = Some candidate1"
    and "read_png secondBuffer = Some candidate2"
    and "wf_png baseline" and "wf_png candidate1" and "wf_png candidate2"
    and "width candidate1 = width baseline" and "height candidate1 = height baseline"
    and "width candidate2 = width baseline" and "height candidate2 = height baseline"
    and "mismatchedSet baseline candidate1 \<subseteq> mismatchedSet baseline candidate2"
  shows "mismatchedSet baseline candidate1 \<subseteq> set (changedPixels baseline candidate1)
       \<and> mismatchedSet baseline candidate2 \<subseteq> set (changedPixels baseline candidate2)
       \<and> (\<exists>r1 r2.
             compareScreenshots read_png pixelmatch fs originalScreenshot first = Inr r1
           \<and> compareScreenshots read_png pixelmatch fs originalScreenshot second = Inr r2
           \<and> mismatchedPixels r1 = card (mismatchedSet baseline candidate1)
           \<and> mismatchedPixels r2 = card (mismatchedSet baseline candidate2)
           \<and> mismatchedPixels r1 \<le> mismatchedPixels r2
           \<and> js_le (similarity r2) (similarity r1))"
proof -
  let ?t = "width baseline * height baseline"
  let ?m1 = "countMismatches (1 / 10) (data baseline) (data candidate1) ?t"
  let ?m2 = "countMismatches (1 / 10) (data baseline) (data candidate2) ?t"
  have ch1: "mismatchedSet baseline candidate1 \<subseteq> set (changedPixels baseline candidate1)"
    using assms(7,8,10,11) by (intro mismatched_are_changed) (simp_all add: wf_png_def)
  have ch2: "mismatchedSet baseline candidate2 \<subseteq> set (changedPixels baseline candidate2)"
    using assms(7,9,12,13) by (intro mismatched_are_changed) (simp_all add: wf_png_def)
  have pm1: "pixelmatch (data baseline) (data candidate1) (width baseline) (height baseline)
               (1 / 10) = Some ?m1"
    using assms(7,8,10,11) by (simp add: pixelmatch_wf)
  have pm2: "pixelmatch (data baseline) (data candidate2) (width baseline) (height baseline)
               (1 / 10) = Some ?m2"
    using assms(7,9,12,13) by (simp add: pixelmatch_wf)
  have pos: "0 < ?t" using assms(7) by (simp add: wf_png_def)
  have c1: "?m1 = card (mismatchedSet baseline candidate1)"
    and c2: "?m2 = card (mismatchedSet baseline candidate2)"
    by (simp_all add: countMismatches_card mismatchedSet_def)
  have "card (mismatchedSet baseline candidate1) \<le> card (mismatchedSet baseline candidate2)"
    using assms(14) by (rule card_mono [OF mismatchedSet_finite])
  then have le: "?m1 \<le> ?m2"
    using c1 c2 by simp
  have "js_le (js_100_minus (js_times_100 (js_div ?m2 ?t)))
              (js_100_minus (js_times_100 (js_div ?m1 ?t)))"
    using pos le by (rule js_similarity_antitone)
  then have "\<exists>r1 r2.
             compareScreenshots read_png pixelmatch fs originalScreenshot first = Inr r1
           \<and> compareScreenshots read_png pixelmatch fs originalScreenshot second = Inr r2
           \<and> mismatchedPixels r1 = card (mismatchedSet baseline candidate1)
           \<and> mismatchedPixels r2 = card (mismatchedSet baseline candidate2)
           \<and> mismatchedPixels r1 \<le> mismatchedPixels r2
           \<and> js_le (similarity r2) (similarity r1)"
    using compareScreenshots_decoded [OF assms(1,2,4,5), of pixelmatch]
      compareScreenshots_decoded [OF assms(1,3,4,6), of pixelmatch] pm1 pm2 le c1 c2
    by simp
  with ch1 ch2 show ?thesis by blast
qed

theorem similarity_monotone_witness:
  "\<exists>r1 r2.
     compareScreenshots demo_reader pixelmatch
       [''screenshots/baseline_initial.png'' \<mapsto> [1], ''screenshots/a.png'' \<mapsto> [1],
        ''screenshots/b.png'' \<mapsto> [2]]
       ''baseline_initial.png'' ''a.png'' = Inr r1
   \<and> compareScreenshots demo_reader pixelmatch
       [''screenshots/baseline_initial.png'' \<mapsto> [1], ''screenshots/a.png'' \<mapsto> [1],
        ''screenshots/b.png'' \<mapsto> [2]]
       ''baseline_initial.png'' ''b.png'' = Inr r2
   \<and> mismatchedPixels r1 \<le> mismatchedPixels r2
   \<and> js_le (similarity r2) (similarity r1)"
  using similarity_monotone [of
      "[''screenshots/baseline_initial.png'' \<mapsto> [1], ''screenshots/a.png'' \<mapsto> [1],
        ''screenshots/b.png'' \<mapsto> [2]]"
      "''baseline_initial.png''" "[1]" "''a.png''" "[1]" "''b.png''" "[2]"
      demo_reader white2x2 white2x2 "paint white2x2 1 black"]
  by (auto simp: demo_reader_def wf_png_def white2x2_def paint_def white_def black_def
       screenshotPath_def startsWith_def mismatchedSet_def pixelMismatch_same)

text \<open>
  C8. The baseline is the 2 by 2 all-white image and the candidate is that image with one
  of its four pixels, whichever, turned fully black: one pixel is mismatched, the
  similarity is 75 and the comparison does not pass.
\<close>

theorem one_black_pixel_of_four:
  assumes "fs (screenshotPath originalScreenshot) = Some originalBuffer"
    and "fs (screenshotPath currentScreenshot) = Some currentBuffer"
    and "read_png originalBuffer = Some white2x2"
    and "read_png currentBuffer = Some (paint white2x2 k black)"
    and "k < 4"
  shows "compareScreenshots read_png pixelmatch fs originalScreenshot currentScreenshot
           = Inr \<lparr>mismatchedPixels = 1, similarity = Num 75, passed = False\<rparr>"
proof -
  have k: "k = 0 \<or> k = 1 \<or> k = 2 \<or> k = 3" using assms(5) by arith
  have "pixelmatch (data white2x2) (data (paint white2x2 k black)) 2 2 (1 / 10) = Some 1"
    using k
    by (elim disjE)
      (simp_all add: white2x2_def paint_def white_def black_def pixelmatch_def
         pixelMismatch_def channelDelta_def countMismatches_numeral)
  then show ?thesis
    using compareScreenshots_decoded [OF assms(1-4), of pixelmatch]
    by (simp add: white2x2_def js_div_def)
qed

theorem one_black_pixel_of_four_witness:
  "compareScreenshots demo_reader pixelmatch
      [''screenshots/baseline_initial.png'' \<mapsto> [1],
       ''screenshots/screenshot_initial_1.png'' \<mapsto> [2]]
      ''baseline_initial.png'' ''screenshot_initial_1.png''
     = Inr \<lparr>mismatchedPixels = 1, similarity = Num 75, passed = False\<rparr>"
  using one_black_pixel_of_four [of
      "[''screenshots/baseline_initial.png'' \<mapsto> [1],
        ''screenshots/screenshot_initial_1.png'' \<mapsto> [2]]"
      "''baseline_initial.png''" "[1]" "''screenshot_initial_1.png''" "[2]"
      demo_reader 1]
  by (simp add: demo_reader_def screenshotPath_def startsWith_def)

subsection \<open>Failures and the baseline workflow\<close>

text \<open>
  C9. When the baseline file or the candidate file holds data the decoder rejects, the
  comparison fails with the decode error; when both decode and the pixel-difference
  function throws, it fails with the dimension error. Every error of the comparison,
  these two included, leaves the baseline block of \<^verbatim>\<open>main\<close> as that same
  error, which is never the error of a comparison that returned false, and never a
  successful run. This holds for every decoder and every pixel-difference function.
\<close>

theorem comparison_errors_reported:
  assumes "fs (baselinePath key) = Some originalBuffer"
    and "fs (screenshotPath current) = Some currentBuffer"
  shows "(read_png originalBuffer = None \<or> read_png currentBuffer = None
            \<longrightarrow> compare read_png pm fs key current = Inl ImageDecodeError)
       \<and> (\<forall>b c. read_png originalBuffer = Some b \<and> read_png currentBuffer = Some c
                  \<and> pm (data b) (data c) (width b) (height b) (1 / 10) = None
            \<longrightarrow> compare read_png pm fs key current = Inl DimensionMismatchError)
       \<and> (\<forall>e. compare read_png pm fs key current = Inl e
            \<longrightarrow> baselineBlock read_png pm fs key current screenshotName = Inl e
                \<and> e \<noteq> ComparisonFailed)"
proof (intro conjI impI allI)
  assume "read_png originalBuffer = None \<or> read_png currentBuffer = None"
  then show "compare read_png pm fs key current = Inl ImageDecodeError"
    using assms
    by (auto simp: compare_def compareScreenshots_def readFile_def
          screenshotPath_baselineName split: option.splits)
next
  fix b c
  assume "read_png originalBuffer = Some b \<and> read_png currentBuffer = Some c
            \<and> pm (data b) (data c) (width b) (height b) (1 / 10) = None"
  then show "compare read_png pm fs key current = Inl DimensionMismatchError"
    using assms
    by (simp add: compare_def compareScreenshots_def readFile_def
          screenshotPath_baselineName)
next
  fix e
  assume e: "compare read_png pm fs key current = Inl e"
  have "hasBaseline fs key"
    using assms(1) by (simp add: hasBaseline_def existsSync_def)
  then show "baselineBlock read_png pm fs key current screenshotName = Inl e"
    using e by (simp add: baselineBlock_def)
next
  fix e
  assume "compare read_png pm fs key current = Inl e"
  then show "e \<noteq> ComparisonFailed"
    using compareScreenshots_not_ComparisonFailed
      [of read_png pm fs "baselineName key" current]
    by (auto simp: compare_def)
qed

theorem comparison_errors_reported_witness:
  "compare demo_reader pixelmatch
      [''screenshots/baseline_initial.png'' \<mapsto> [1],
       ''screenshots/screenshot_initial_1.png'' \<mapsto> [9]]
      ''initial'' ''screenshot_initial_1.png'' = Inl ImageDecodeError
   \<and> checkInitial demo_reader pixelmatch
      [''screenshots/baseline_initial.png'' \<mapsto> [1],
       ''screenshots/screenshot_initial_1.png'' \<mapsto> [9]]
      ''screenshot_initial_1.png'' = Inl ImageDecodeError
   \<and> compare demo_reader pixelmatch
      [''screenshots/baseline_initial.png'' \<mapsto> [1],
       ''screenshots/screenshot_initial_1.png'' \<mapsto> [4]]
      ''initial'' ''screenshot_initial_1.png'' = Inl DimensionMismatchError
   \<and> checkInitial demo_reader pixelmatch
      [''screenshots/baseline_initial.png'' \<mapsto> [1],
       ''screenshots/screenshot_initial_1.png'' \<mapsto> [4]]
      ''screenshot_initial_1.png'' = Inl DimensionMismatchError"
  using comparison_errors_reported [of
      "[''screenshots/baseline_initial.png'' \<mapsto> [1],
        ''screenshots/screenshot_initial_1.png'' \<mapsto> [9]]"
      "''initial''" "[1]" "''screenshot_initial_1.png''" "[9]" demo_reader
      pixelmatch "''screenshot_initial_1.png''"]
    comparison_errors_reported [of
      "[''screenshots/baseline_initial.png'' \<mapsto> [1],
        ''screenshots/screenshot_initial_1.png'' \<mapsto> [4]]"
      "''initial''" "[1]" "''screenshot_initial_1.png''" "[4]" demo_reader
      pixelmatch "''screenshot_initial_1.png''"]
  by (simp add: demo_defs screenshotPath_def startsWith_def baselinePath_initial
       checkInitial_def pixelmatch_def)

text \<open>
  C10. When a key has no baseline and the screenshot file is there, recording the
  baseline succeeds (it is what the baseline block of \<^verbatim>\<open>main\<close> does then), and
  from then on the key has a baseline, whatever the script writes afterwards.
\<close>

theorem baseline_established:
  assumes "\<not> hasBaseline fs key"
    and "fs (''screenshots/'' @ screenshotName) = Some contents"
  shows "\<exists>fs'. establishBaseline fs key screenshotName = Inr fs'
           \<and> baselineBlock read_png pm fs key current screenshotName = Inr fs'
           \<and> (\<forall>ws. hasBaseline (fs_run fs' ws) key)"
proof -
  let ?fs' = "writeFile fs (baselinePath key) contents"
  have est: "establishBaseline fs key screenshotName = Inr ?fs'"
    using assms(2) by (simp add: establishBaseline_def readFile_def)
  have blk: "baselineBlock read_png pm fs key current screenshotName = Inr ?fs'"
    using assms(1) est by (simp add: baselineBlock_def)
  have "?fs' (baselinePath key) \<noteq> None" by (simp add: writeFile_def)
  then have "\<forall>ws. hasBaseline (fs_run ?fs' ws) key"
    by (simp add: hasBaseline_def existsSync_def fs_run_keeps_files)
  with est blk show ?thesis by simp
qed

theorem baseline_established_witness:
  "\<not> hasBaseline [''screenshots/screenshot_initial_1.png'' \<mapsto> [1]] ''initial''
   \<and> (\<exists>fs'. establishBaseline [''screenshots/screenshot_initial_1.png'' \<mapsto> [1]]
              ''initial'' ''screenshot_initial_1.png'' = Inr fs'
         \<and> checkInitial demo_reader pixelmatch
              [''screenshots/screenshot_initial_1.png'' \<mapsto> [1]]
              ''screenshot_initial_1.png'' = Inr fs'
         \<and> (\<forall>ws. hasBaseline (fs_run fs' ws) ''initial''))"
  using baseline_established [of
      "[''screenshots/screenshot_initial_1.png'' \<mapsto> [1]]" "''initial''"
      "''screenshot_initial_1.png''" "[1]" demo_reader pixelmatch
      "''screenshot_initial_1.png''"]
  by (simp add: hasBaseline_def existsSync_def baselinePath_initial checkInitial_def)

end
